theory Spec2Isabelle
  imports Complex_Main "HOL-Library.Word"
begin

section \<open>Values exchanged with the simulator library\<close>

text \<open>
  The program is the \<open>main\<close> function of \<open>opt-gsoc-nr-channel-models-error.cc\<close>. It drives
  a simulator library through helper objects; the model keeps what \<open>main\<close> itself decides
  and records every call it makes on a helper, in program order.

  A \<open>double\<close> is modelled as a real number. Every \<open>double\<close> that \<open>main\<close> computes is an
  integer below \<open>2 ^ 53\<close> (\<open>50 * ueIndex\<close>, \<open>1 + 3 * ueIndex\<close> with \<open>ueIndex < 2 ^ 32\<close>) or
  the literal \<open>1.5\<close>, so the floating-point operations are exact.
\<close>

datatype vector = Vector (vx: real) (vy: real) (vz: real)

datatype amc_model = ErrorModel | ShannonModel

datatype type_id =
    IsotropicAntennaModel
  | ParabolicAntennaModel
  | FriisPropagationLossModel
  | DirectPathBeamforming
  | TrafficGeneratorNgmnGaming
  | LookupByName string

datatype attr_value =
    UintegerValue nat
  | BooleanValue bool
  | DoubleValue real
  | TimeValue nat
  | TypeIdValue type_id
  | EnumValue amc_model
  | PointerValue type_id

text \<open>Times are kept in milliseconds.\<close>

definition MilliSeconds :: "nat \<Rightarrow> nat" where
  "MilliSeconds n = n"

definition Seconds :: "nat \<Rightarrow> nat" where
  "Seconds n = 1000 * n"

type_synonym attrs = "string \<rightharpoonup> attr_value"

section \<open>Local variables of main and the command line\<close>

record vars =
  rngSeed :: "32 word"
  rngRun :: "32 word"
  centralFrequency :: real
  channelModel :: string
  numUes :: "32 word"
  numGnbs :: "32 word"
  logging :: bool
  errorModelType :: string
  amcSelectionModel :: string
  channelConditionModel :: string

text \<open>Lines 102--125: the initial values of the variables a flag can be bound to.\<close>

definition initialVars :: vars where
  "initialVars =
     \<lparr>rngSeed = 1, rngRun = 1, centralFrequency = 30500000000, channelModel = ''ThreeGpp'',
      numUes = 4, numGnbs = 1, logging = True, errorModelType = ''ns3::NrEesmCcT1'',
      amcSelectionModel = ''ErrorModel'', channelConditionModel = ''Default''\<rparr>"

text \<open>The constants of lines 107--116 and 173--180.\<close>

definition bandwidth :: real where "bandwidth = 100000000"
definition simTime :: nat where "simTime = Seconds 10"
definition udpTime :: nat where "udpTime = MilliSeconds 0"
definition scenario :: string where "scenario = ''UMa''"
definition numerology :: nat where "numerology = 1"
definition ueTxPower :: nat where "ueTxPower = 23"
definition bsTxPower :: nat where "bsTxPower = 41"
definition ueSpeed :: real where "ueSpeed = 30"
definition ueNumRows :: nat where "ueNumRows = 1"
definition ueNumCols :: nat where "ueNumCols = 1"
definition gnbNumRows :: nat where "gnbNumRows = 4"
definition gnbNumCols :: nat where "gnbNumCols = 8"

text \<open>
  An argument \<open>--name=value\<close> of the command line, with the value already read in the type
  of the variable it is meant for.
\<close>

datatype cli_value = UintArg "32 word" | StringArg string | DoubleArg real | BoolArg bool

type_synonym argv = "(string \<times> cli_value) list"

text \<open>
  \<open>cmd.AddValue (name, help, variable)\<close> binds a flag name to a variable of \<open>main\<close>. The
  \<open>CommandLine\<close> object is the list of the names bound so far; \<open>assign\<close> is the table of
  all the bindings that \<open>main\<close> makes (lines 129--143 and 150--155): it stores a value in
  the variable bound to a name, and fails when the value has another type.
\<close>

type_synonym command_line = "string list"

definition AddValue :: "string \<Rightarrow> command_line \<Rightarrow> command_line" where
  "AddValue name cmd = cmd @ [name]"

fun assign :: "string \<Rightarrow> cli_value \<Rightarrow> vars \<Rightarrow> vars option" where
  "assign name (UintArg w) v =
     (if name = ''seed'' then Some (v\<lparr>rngSeed := w\<rparr>)
      else if name = ''run'' then Some (v\<lparr>rngRun := w\<rparr>)
      else if name = ''ueNum'' then Some (v\<lparr>numUes := w\<rparr>)
      else if name = ''gNbNum'' then Some (v\<lparr>numGnbs := w\<rparr>)
      else None)"
| "assign name (StringArg t) v =
     (if name = ''channelModel'' then Some (v\<lparr>channelModel := t\<rparr>)
      else if name = ''channelConditionModel'' then Some (v\<lparr>channelConditionModel := t\<rparr>)
      else if name = ''errorModelType'' then Some (v\<lparr>errorModelType := t\<rparr>)
      else if name = ''amcSelectionModel'' then Some (v\<lparr>amcSelectionModel := t\<rparr>)
      else None)"
| "assign name (DoubleArg r) v =
     (if name = ''frequency'' then Some (v\<lparr>centralFrequency := r\<rparr>) else None)"
| "assign name (BoolArg b) v =
     (if name = ''logging'' then Some (v\<lparr>logging := b\<rparr>) else None)"

text \<open>
  \<open>cmd.Parse\<close> belongs to the simulator library. It reads the arguments in order; an
  argument whose name is bound at the time of the call is stored in its variable. For a
  name that is not bound the library decides (\<open>globalOption\<close>: the name is one of its own
  global values, which no variable of \<open>main\<close> sees); otherwise, and for a value that does
  not parse, it prints the usage and exits.
\<close>

fun Parse :: "(string \<Rightarrow> bool) \<Rightarrow> command_line \<Rightarrow> argv \<Rightarrow> vars \<Rightarrow> string + vars" where
  "Parse globalOption cmd [] v = Inr v"
| "Parse globalOption cmd ((name, a) # rest) v =
     (if name \<in> set cmd then
        (case assign name a v of
           None \<Rightarrow> Inl (''Invalid command-line option: --'' @ name)
         | Some v' \<Rightarrow> Parse globalOption cmd rest v')
      else if globalOption name then Parse globalOption cmd rest v
      else Inl (''Invalid command-line option: --'' @ name))"

text \<open>Lines 127--143: the flags bound before \<open>cmd.Parse\<close> is called at line 144.\<close>

definition cmdAtParse :: command_line where
  "cmdAtParse =
     (AddValue ''logging'' \<circ> AddValue ''frequency'' \<circ> AddValue ''gNbNum'' \<circ> AddValue ''ueNum''
      \<circ> AddValue ''channelConditionModel'' \<circ> AddValue ''channelModel'' \<circ> AddValue ''run''
      \<circ> AddValue ''seed'') []"

text \<open>Lines 150--155: two more flags are bound after the arguments have been read.\<close>

definition cmdAtEnd :: command_line where
  "cmdAtEnd = (AddValue ''amcSelectionModel'' \<circ> AddValue ''errorModelType'') cmdAtParse"

section \<open>The state of the setup\<close>

record terminal =
  position :: vector
  velocity :: vector

datatype devices = GnbDevices | UeDevices

text \<open>The calls on the simulator that the claims are about, in the order \<open>main\<close> makes them.\<close>

datatype event =
    Created nat vector vector
  | SetPosition nat vector
  | SetVelocity nat vector
  | InstallGnbDevice nat
  | InstallUeDevice nat
  | AssignStreams devices int
  | InstallTraffic nat
  | AttachToClosestGnb
  | EnableTraces string
  | SimulatorStop nat
  | SetSeed "32 word"
  | SetRun "32 word"
  | SimulatorRun
  | SimulatorDestroy

record hexgrid =
  utHeight :: real
  bsHeight :: real
  sectorization :: nat
  isd :: real
  utNumber :: nat
  bsNumber :: nat

record nr_helper =
  idealBeamformingHelper :: "attrs option"
  ueAntennaAttrs :: attrs
  gnbAntennaAttrs :: attrs
  ueAntennaTypeId :: "type_id option"
  gnbAntennaTypeId :: "type_id option"
  gnbPhyAttrs :: attrs
  uePhyAttrs :: attrs
  schedulerAttrs :: attrs
  ulErrorModel :: "string option"
  dlErrorModel :: "string option"
  gnbDlAmcAttrs :: attrs
  gnbUlAmcAttrs :: attrs

record channel_helper =
  factories :: "(string \<times> string \<times> string) option"
  pathlossAttrs :: attrs
  conditionAttrs :: attrs
  propagationFactory :: "type_id option"
  assigned :: bool

record sim =
  trace :: "event list"
  ueNodes :: "terminal list"
  gNbNodes :: nat
  defaults :: attrs
  nrHelper :: nr_helper
  channelHelper :: channel_helper
  randomStream :: int

text \<open>
  What the simulator library decides and \<open>main\<close> only consumes: where the hexagonal grid
  drops terminal \<open>i\<close>, which type names \<open>TypeId::LookupByName\<close> resolves, how many random
  streams \<open>AssignStreams\<close> uses for a container of \<open>n\<close> devices starting at a given stream,
  and which flag names \<open>cmd.Parse\<close> takes for its own.
\<close>

record collab =
  gridPosition :: "nat \<Rightarrow> vector"
  knownTypeId :: "string \<Rightarrow> bool"
  streamsUsed :: "devices \<Rightarrow> nat \<Rightarrow> int \<Rightarrow> int"
  globalOption :: "string \<Rightarrow> bool"

definition newNrHelper :: nr_helper where
  "newNrHelper =
     \<lparr>idealBeamformingHelper = None, ueAntennaAttrs = Map.empty, gnbAntennaAttrs = Map.empty,
      ueAntennaTypeId = None, gnbAntennaTypeId = None, gnbPhyAttrs = Map.empty,
      uePhyAttrs = Map.empty, schedulerAttrs = Map.empty, ulErrorModel = None,
      dlErrorModel = None, gnbDlAmcAttrs = Map.empty, gnbUlAmcAttrs = Map.empty\<rparr>"

definition newChannelHelper :: channel_helper where
  "newChannelHelper =
     \<lparr>factories = None, pathlossAttrs = Map.empty, conditionAttrs = Map.empty,
      propagationFactory = None, assigned = False\<rparr>"

text \<open>Line 102: \<open>randomStream = 1\<close>; nothing else exists when \<open>main\<close> starts.\<close>

definition initialSim :: sim where
  "initialSim =
     \<lparr>trace = [], ueNodes = [], gNbNodes = 0, defaults = Map.empty, nrHelper = newNrHelper,
      channelHelper = newChannelHelper, randomStream = 1\<rparr>"

definition emit :: "event list \<Rightarrow> sim \<Rightarrow> sim" where
  "emit es s = s\<lparr>trace := trace s @ es\<rparr>"

section \<open>Topology: creation, placement override, mobility\<close>

text \<open>Lines 162--183: the grid helper as \<open>main\<close> configures it.\<close>

definition hexGrid :: "vars \<Rightarrow> hexgrid" where
  "hexGrid v =
     \<lparr>utHeight = 1.5, bsHeight = 25, sectorization = 1, isd = 200,
      utNumber = unat (numUes v), bsNumber = unat (numGnbs v)\<rparr>"

text \<open>
  Lines 185--189. \<open>CreateScenarioWithMobility (speed, 0)\<close> belongs to the library: it
  creates \<open>utNumber\<close> terminals and \<open>bsNumber\<close> base stations, drops each terminal on the
  grid and gives it a constant-velocity mobility model moving with \<open>speed\<close> (the call site
  says: move UE in x-axis).
\<close>

definition CreateScenarioWithMobility :: "collab \<Rightarrow> hexgrid \<Rightarrow> vector \<Rightarrow> sim \<Rightarrow> sim" where
  "CreateScenarioWithMobility col hg speed s =
     emit (map (\<lambda>i. Created i (gridPosition col i) speed) [0..<utNumber hg])
       (s\<lparr>ueNodes := map (\<lambda>i. \<lparr>position = gridPosition col i, velocity = speed\<rparr>)
                       [0..<utNumber hg],
          gNbNodes := bsNumber hg\<rparr>)"

text \<open>Lines 194--202: the position that the override computes for a terminal.\<close>

definition overridePosition :: "nat \<Rightarrow> vector" where
  "overridePosition ueIndex =
     (let position = Vector 10.0 20.0 1.5 in
      if ueIndex > 0
      then Vector (50.0 * real ueIndex)
                  (30.0 * (if ueIndex mod 2 = 0 then 1 else - 1))
                  (vz position)
      else position)"

text \<open>
  Lines 203--204, one iteration. The index is always in range here, since the loop runs
  below \<open>ueNodes.GetN ()\<close>.
\<close>

definition placeStep :: "nat \<Rightarrow> sim \<Rightarrow> sim" where
  "placeStep ueIndex s =
     emit [SetPosition ueIndex (overridePosition ueIndex)]
       (s\<lparr>ueNodes := (ueNodes s)[ueIndex :=
             (ueNodes s ! ueIndex)\<lparr>position := overridePosition ueIndex\<rparr>]\<rparr>)"

text \<open>Lines 192--210: the loop tests \<open>ueIndex < ueNodes.GetN ()\<close> before every iteration.\<close>

function placeLoop :: "nat \<Rightarrow> sim \<Rightarrow> sim" where
  "placeLoop ueIndex s =
     (if ueIndex < length (ueNodes s) then placeLoop (Suc ueIndex) (placeStep ueIndex s)
      else s)"
  by pat_completeness auto
termination
  by (relation "measure (\<lambda>(i, s). length (ueNodes s) - i)")
    (auto simp: placeStep_def emit_def)

declare placeLoop.simps [simp del]

text \<open>Lines 217--218: the velocity that the second loop gives a terminal.\<close>

definition zigzagVelocity :: "nat \<Rightarrow> vector" where
  "zigzagVelocity ueIndex =
     (let speed = 1.0 + real ueIndex * 3.0 in
      Vector speed ((if ueIndex mod 2 = 0 then 1 else - 1) * speed) 0)"

definition moveStep :: "nat \<Rightarrow> sim \<Rightarrow> sim" where
  "moveStep ueIndex s =
     emit [SetVelocity ueIndex (zigzagVelocity ueIndex)]
       (s\<lparr>ueNodes := (ueNodes s)[ueIndex :=
             (ueNodes s ! ueIndex)\<lparr>velocity := zigzagVelocity ueIndex\<rparr>]\<rparr>)"

text \<open>Lines 212--219.\<close>

function moveLoop :: "nat \<Rightarrow> sim \<Rightarrow> sim" where
  "moveLoop ueIndex s =
     (if ueIndex < length (ueNodes s) then moveLoop (Suc ueIndex) (moveStep ueIndex s)
      else s)"
  by pat_completeness auto
termination
  by (relation "measure (\<lambda>(i, s). length (ueNodes s) - i)")
    (auto simp: moveStep_def emit_def)

declare moveLoop.simps [simp del]

text \<open>Lines 162--219 together.\<close>

definition topology :: "collab \<Rightarrow> vars \<Rightarrow> sim \<Rightarrow> sim" where
  "topology col v s =
     CreateScenarioWithMobility col (hexGrid v) (Vector ueSpeed 0.0 0.0) s"

definition placement :: "sim \<Rightarrow> sim" where
  "placement s = placeLoop 0 s"

definition mobility :: "sim \<Rightarrow> sim" where
  "mobility s = moveLoop 0 s"

section \<open>Setting up the radio stack\<close>

text \<open>
  \<open>NS_FATAL_ERROR\<close> ends the process at once. A step that can reach it returns the message
  and the state at that moment on the left, and the new state on the right.
\<close>

type_synonym step_result = "(string \<times> sim) + sim"

text \<open>The setters of the helper objects, one per member function that \<open>main\<close> calls.\<close>

definition SetDefault :: "string \<Rightarrow> attr_value \<Rightarrow> sim \<Rightarrow> sim" where
  "SetDefault name a s = s\<lparr>defaults := (defaults s)(name \<mapsto> a)\<rparr>"

definition SetBeamformingHelper :: "sim \<Rightarrow> sim" where
  "SetBeamformingHelper s = s\<lparr>nrHelper := (nrHelper s)\<lparr>idealBeamformingHelper := Some Map.empty\<rparr>\<rparr>"

definition SetBeamformingAttribute :: "string \<Rightarrow> attr_value \<Rightarrow> sim \<Rightarrow> sim" where
  "SetBeamformingAttribute name a s =
     s\<lparr>nrHelper := (nrHelper s)\<lparr>idealBeamformingHelper :=
          map_option (\<lambda>m. m(name \<mapsto> a)) (idealBeamformingHelper (nrHelper s))\<rparr>\<rparr>"

definition SetUeAntennaAttribute :: "string \<Rightarrow> attr_value \<Rightarrow> sim \<Rightarrow> sim" where
  "SetUeAntennaAttribute name a s =
     s\<lparr>nrHelper := (nrHelper s)\<lparr>ueAntennaAttrs := (ueAntennaAttrs (nrHelper s))(name \<mapsto> a)\<rparr>\<rparr>"

definition SetGnbAntennaAttribute :: "string \<Rightarrow> attr_value \<Rightarrow> sim \<Rightarrow> sim" where
  "SetGnbAntennaAttribute name a s =
     s\<lparr>nrHelper := (nrHelper s)\<lparr>gnbAntennaAttrs := (gnbAntennaAttrs (nrHelper s))(name \<mapsto> a)\<rparr>\<rparr>"

definition SetUeAntennaTypeId :: "type_id \<Rightarrow> sim \<Rightarrow> sim" where
  "SetUeAntennaTypeId t s = s\<lparr>nrHelper := (nrHelper s)\<lparr>ueAntennaTypeId := Some t\<rparr>\<rparr>"

definition SetGnbAntennaTypeId :: "type_id \<Rightarrow> sim \<Rightarrow> sim" where
  "SetGnbAntennaTypeId t s = s\<lparr>nrHelper := (nrHelper s)\<lparr>gnbAntennaTypeId := Some t\<rparr>\<rparr>"

definition SetGnbPhyAttribute :: "string \<Rightarrow> attr_value \<Rightarrow> sim \<Rightarrow> sim" where
  "SetGnbPhyAttribute name a s =
     s\<lparr>nrHelper := (nrHelper s)\<lparr>gnbPhyAttrs := (gnbPhyAttrs (nrHelper s))(name \<mapsto> a)\<rparr>\<rparr>"

definition SetUePhyAttribute :: "string \<Rightarrow> attr_value \<Rightarrow> sim \<Rightarrow> sim" where
  "SetUePhyAttribute name a s =
     s\<lparr>nrHelper := (nrHelper s)\<lparr>uePhyAttrs := (uePhyAttrs (nrHelper s))(name \<mapsto> a)\<rparr>\<rparr>"

definition SetSchedulerAttribute :: "string \<Rightarrow> attr_value \<Rightarrow> sim \<Rightarrow> sim" where
  "SetSchedulerAttribute name a s =
     s\<lparr>nrHelper := (nrHelper s)\<lparr>schedulerAttrs := (schedulerAttrs (nrHelper s))(name \<mapsto> a)\<rparr>\<rparr>"

definition SetUlErrorModel :: "string \<Rightarrow> sim \<Rightarrow> sim" where
  "SetUlErrorModel t s = s\<lparr>nrHelper := (nrHelper s)\<lparr>ulErrorModel := Some t\<rparr>\<rparr>"

definition SetDlErrorModel :: "string \<Rightarrow> sim \<Rightarrow> sim" where
  "SetDlErrorModel t s = s\<lparr>nrHelper := (nrHelper s)\<lparr>dlErrorModel := Some t\<rparr>\<rparr>"

definition SetGnbDlAmcAttribute :: "string \<Rightarrow> attr_value \<Rightarrow> sim \<Rightarrow> sim" where
  "SetGnbDlAmcAttribute name a s =
     s\<lparr>nrHelper := (nrHelper s)\<lparr>gnbDlAmcAttrs := (gnbDlAmcAttrs (nrHelper s))(name \<mapsto> a)\<rparr>\<rparr>"

definition SetGnbUlAmcAttribute :: "string \<Rightarrow> attr_value \<Rightarrow> sim \<Rightarrow> sim" where
  "SetGnbUlAmcAttribute name a s =
     s\<lparr>nrHelper := (nrHelper s)\<lparr>gnbUlAmcAttrs := (gnbUlAmcAttrs (nrHelper s))(name \<mapsto> a)\<rparr>\<rparr>"

definition ConfigureFactories :: "string \<Rightarrow> string \<Rightarrow> string \<Rightarrow> sim \<Rightarrow> sim" where
  "ConfigureFactories sc cond model s =
     s\<lparr>channelHelper := (channelHelper s)\<lparr>factories := Some (sc, cond, model)\<rparr>\<rparr>"

definition SetPathlossAttribute :: "string \<Rightarrow> attr_value \<Rightarrow> sim \<Rightarrow> sim" where
  "SetPathlossAttribute name a s =
     s\<lparr>channelHelper := (channelHelper s)\<lparr>pathlossAttrs :=
          (pathlossAttrs (channelHelper s))(name \<mapsto> a)\<rparr>\<rparr>"

definition SetChannelConditionModelAttribute :: "string \<Rightarrow> attr_value \<Rightarrow> sim \<Rightarrow> sim" where
  "SetChannelConditionModelAttribute name a s =
     s\<lparr>channelHelper := (channelHelper s)\<lparr>conditionAttrs :=
          (conditionAttrs (channelHelper s))(name \<mapsto> a)\<rparr>\<rparr>"

definition ConfigurePropagationFactory :: "type_id \<Rightarrow> sim \<Rightarrow> sim" where
  "ConfigurePropagationFactory t s =
     s\<lparr>channelHelper := (channelHelper s)\<lparr>propagationFactory := Some t\<rparr>\<rparr>"

definition AssignChannelsToBands :: "sim \<Rightarrow> sim" where
  "AssignChannelsToBands s = s\<lparr>channelHelper := (channelHelper s)\<lparr>assigned := True\<rparr>\<rparr>"

text \<open>
  Lines 227--240. \<open>TypeId::LookupByName\<close> belongs to the library; a name it does not
  resolve ends the process there.
\<close>

definition configureAmc :: "collab \<Rightarrow> vars \<Rightarrow> sim \<Rightarrow> step_result" where
  "configureAmc col v s =
     (if \<not> knownTypeId col (errorModelType v)
      then Inl (''TypeId::LookupByName: '' @ errorModelType v @ '' not found'', s)
      else
        let s1 = SetDefault ''ns3::NrAmc::ErrorModelType''
                   (TypeIdValue (LookupByName (errorModelType v))) s
        in if amcSelectionModel v = ''ErrorModel''
           then Inr (SetDefault ''ns3::NrAmc::AmcModel'' (EnumValue ErrorModel) s1)
           else if amcSelectionModel v = ''ShannonModel''
           then Inr (SetDefault ''ns3::NrAmc::AmcModel'' (EnumValue ShannonModel) s1)
           else Inl (''Invalid amcSelectionModel: '' @ amcSelectionModel v, s1))"

text \<open>Lines 241--246: one more default, then the helper objects are created.\<close>

definition createHelpers :: "sim \<Rightarrow> sim" where
  "createHelpers s =
     (SetDefault ''ns3::NrRlcUm::MaxTxBufferSize'' (UintegerValue 999999999) s)
       \<lparr>nrHelper := newNrHelper, channelHelper := newChannelHelper\<rparr>"

text \<open>Lines 252--297: the dispatch on the channel model.\<close>

definition configureChannel :: "vars \<Rightarrow> sim \<Rightarrow> step_result" where
  "configureChannel v s =
     (if channelModel v = ''ThreeGpp'' \<or> channelModel v = ''NYU'' \<or> channelModel v = ''TwoRay''
      then
        let s1 = SetBeamformingHelper s;
            s2 = ConfigureFactories scenario (channelConditionModel v) (channelModel v) s1;
            s3 = SetPathlossAttribute ''ShadowingEnabled'' (BooleanValue True) s2;
            s4 = (if channelConditionModel v = ''Default'' \<or> channelConditionModel v = ''Buildings''
                  then SetChannelConditionModelAttribute ''UpdatePeriod''
                         (TimeValue (MilliSeconds 100)) s3
                  else s3);
            s5 = SetBeamformingAttribute ''BeamformingMethod'' (TypeIdValue DirectPathBeamforming) s4;
            s6 = SetUeAntennaAttribute ''NumRows'' (UintegerValue ueNumRows) s5;
            s7 = SetUeAntennaAttribute ''NumColumns'' (UintegerValue ueNumCols) s6;
            s8 = SetUeAntennaAttribute ''AntennaElement'' (PointerValue IsotropicAntennaModel) s7;
            s9 = SetGnbAntennaAttribute ''NumRows'' (UintegerValue gnbNumRows) s8;
            s10 = SetGnbAntennaAttribute ''NumColumns'' (UintegerValue gnbNumCols) s9
        in Inr (SetGnbAntennaAttribute ''AntennaElement'' (PointerValue IsotropicAntennaModel) s10)
      else if channelModel v = ''Friis''
      then
        let s1 = SetUeAntennaTypeId ParabolicAntennaModel s;
            s2 = SetGnbAntennaTypeId ParabolicAntennaModel s1
        in Inr (ConfigurePropagationFactory FriisPropagationLossModel s2)
      else Inl (''Invalid channel model: '' @ channelModel v
                  @ ''. Choose among 'ThreeGpp', 'NYU', 'TwoRay', 'Friis'.'', s))"

text \<open>Lines 319--329: the link-adaptation model of the base stations; there is no else branch.\<close>

definition configureGnbAmc :: "vars \<Rightarrow> sim \<Rightarrow> sim" where
  "configureGnbAmc v s =
     (if amcSelectionModel v = ''ErrorModel''
      then SetGnbUlAmcAttribute ''AmcModel'' (EnumValue ErrorModel)
             (SetGnbDlAmcAttribute ''AmcModel'' (EnumValue ErrorModel) s)
      else if amcSelectionModel v = ''ShannonModel''
      then SetGnbUlAmcAttribute ''AmcModel'' (EnumValue ShannonModel)
             (SetGnbDlAmcAttribute ''AmcModel'' (EnumValue ShannonModel) s)
      else s)"

text \<open>
  Lines 334--335: \<open>randomStream += nrHelper->AssignStreams (devices, randomStream)\<close>. The
  variable is an \<open>int64_t\<close>; it is modelled unbounded.
\<close>

definition assignStreams :: "collab \<Rightarrow> devices \<Rightarrow> nat \<Rightarrow> sim \<Rightarrow> sim" where
  "assignStreams col d n s =
     emit [AssignStreams d (randomStream s)]
       (s\<lparr>randomStream := randomStream s + streamsUsed col d n (randomStream s)\<rparr>)"

text \<open>Lines 299--335: attributes of the devices, their installation, their random streams.\<close>

definition provision :: "collab \<Rightarrow> vars \<Rightarrow> sim \<Rightarrow> sim" where
  "provision col v s =
     (let s1 = AssignChannelsToBands s;
          s2 = SetGnbPhyAttribute ''TxPower'' (DoubleValue (real bsTxPower)) s1;
          s3 = SetGnbPhyAttribute ''Numerology'' (UintegerValue numerology) s2;
          s4 = SetUePhyAttribute ''TxPower'' (DoubleValue (real ueTxPower)) s3;
          s5 = SetSchedulerAttribute ''FixedMcsDl'' (BooleanValue False) s4;
          s6 = SetSchedulerAttribute ''FixedMcsUl'' (BooleanValue False) s5;
          s7 = SetUlErrorModel (errorModelType v) s6;
          s8 = SetDlErrorModel (errorModelType v) s7;
          s9 = configureGnbAmc v s8;
          s10 = emit [InstallGnbDevice (gNbNodes s9)] s9;
          s11 = emit [InstallUeDevice (length (ueNodes s10))] s10;
          s12 = assignStreams col GnbDevices (gNbNodes s11) s11
      in assignStreams col UeDevices (length (ueNodes s12)) s12)"

text \<open>
  Lines 339--388: the remote host and its routes (nothing the claims speak of), one
  traffic generator per terminal, the attachment and the traces.
\<close>

definition traffic :: "sim \<Rightarrow> sim" where
  "traffic s =
     emit (map InstallTraffic [0..<length (ueNodes s)]
           @ [AttachToClosestGnb, EnableTraces ''DlDataPhy'', EnableTraces ''DlMacSched'',
              EnableTraces ''GnbMacCtrlMsgs'', EnableTraces ''Pathloss'']) s"

text \<open>Lines 390--405: the stop time, the seed and the run number, then the event loop.\<close>

definition run :: "vars \<Rightarrow> sim \<Rightarrow> sim" where
  "run v s =
     emit [SimulatorStop simTime, SetSeed (rngSeed v), SetRun (rngRun v), SimulatorRun,
           SimulatorDestroy] s"

section \<open>The whole program\<close>

datatype outcome = Return0 | FatalError string | ParseExit string

text \<open>
  Lines 156--407, for given values of the variables. The log switch of lines 156--159,
  the progress lines printed on the console, the band of line 250 and the remote host of
  lines 339--358 change nothing that the later steps read, and are left out.
\<close>

definition mainBody :: "collab \<Rightarrow> vars \<Rightarrow> outcome \<times> sim" where
  "mainBody col v =
     (let s = mobility (placement (topology col v initialSim)) in
      case configureAmc col v s of
        Inl (msg, s') \<Rightarrow> (FatalError msg, s')
      | Inr s1 \<Rightarrow>
          (case configureChannel v (createHelpers s1) of
             Inl (msg, s') \<Rightarrow> (FatalError msg, s')
           | Inr s2 \<Rightarrow> (Return0, run v (traffic (provision col v s2)))))"

text \<open>
  Lines 100--155: the command line is read with the flags bound so far; the flags bound
  afterwards (\<open>cmdAtEnd\<close>) are never read, since \<open>Parse\<close> is not called again.
\<close>

definition parsedVars :: "collab \<Rightarrow> argv \<Rightarrow> string + vars" where
  "parsedVars col args = Parse (globalOption col) cmdAtParse args initialVars"

definition main :: "collab \<Rightarrow> argv \<Rightarrow> outcome \<times> sim" where
  "main col args =
     (case parsedVars col args of
        Inl msg \<Rightarrow> (ParseExit msg, initialSim)
      | Inr v \<Rightarrow> mainBody col v)"

text \<open>
  A collaborator to run the program on: terminals dropped along the x-axis, the two
  error models that the help text of the flag names, three streams per device, and a
  command line that knows no flag of its own.
\<close>

definition demoCollab :: collab where
  "demoCollab =
     \<lparr>gridPosition = (\<lambda>i. Vector (real i) 0 1.5),
      knownTypeId = (\<lambda>n. n = ''ns3::NrEesmCcT1'' \<or> n = ''ns3::NrLteMiErrorModel''),
      streamsUsed = (\<lambda>d n k. 3 * int n),
      globalOption = (\<lambda>n. False)\<rparr>"

text \<open>The events that write a terminal's velocity or position, for counting them.\<close>

fun assignsVelocity :: "nat \<Rightarrow> event \<Rightarrow> bool" where
  "assignsVelocity i (Created j p w) = (j = i)"
| "assignsVelocity i (SetVelocity j w) = (j = i)"
| "assignsVelocity i e = False"

fun setsVelocity :: "nat \<Rightarrow> event \<Rightarrow> bool" where
  "setsVelocity i (SetVelocity j w) = (j = i)"
| "setsVelocity i e = False"

fun setsPosition :: "nat \<Rightarrow> event \<Rightarrow> bool" where
  "setsPosition i (SetPosition j p) = (j = i)"
| "setsPosition i e = False"

fun creates :: "nat \<Rightarrow> event \<Rightarrow> bool" where
  "creates i (Created j p w) = (j = i)"
| "creates i e = False"

fun installsDevice :: "event \<Rightarrow> bool" where
  "installsDevice (InstallGnbDevice n) = True"
| "installsDevice (InstallUeDevice n) = True"
| "installsDevice e = False"

fun enablesTraces :: "event \<Rightarrow> bool" where
  "enablesTraces (EnableTraces n) = True"
| "enablesTraces e = False"

text \<open>The state when the topology, the placement override and the mobility are done.\<close>

definition scene :: "collab \<Rightarrow> vars \<Rightarrow> sim" where
  "scene col v = mobility (placement (topology col v initialSim))"

text \<open>An event that concerns terminal \<open>i\<close>: its creation or a later write.\<close>

definition touches :: "nat \<Rightarrow> event \<Rightarrow> bool" where
  "touches i e = (creates i e \<or> setsPosition i e \<or> setsVelocity i e)"

text \<open>The value that lines 229--236 store as the default link-adaptation model.\<close>

definition amcDefault :: "vars \<Rightarrow> amc_model" where
  "amcDefault v = (if amcSelectionModel v = ''ErrorModel'' then ErrorModel else ShannonModel)"

text \<open>The state at line 252 when lines 227--246 have gone through.\<close>

definition afterAmc :: "collab \<Rightarrow> vars \<Rightarrow> sim" where
  "afterAmc col v =
     createHelpers
       (SetDefault ''ns3::NrAmc::AmcModel'' (EnumValue (amcDefault v))
         (SetDefault ''ns3::NrAmc::ErrorModelType''
            (TypeIdValue (LookupByName (errorModelType v))) (scene col v)))"

text \<open>The events of lines 331--405, for given numbers of nodes and a first stream.\<close>

definition tailEvents :: "collab \<Rightarrow> vars \<Rightarrow> nat \<Rightarrow> nat \<Rightarrow> int \<Rightarrow> event list" where
  "tailEvents col v g n r =
     [InstallGnbDevice g, InstallUeDevice n, AssignStreams GnbDevices r,
      AssignStreams UeDevices (r + streamsUsed col GnbDevices g r)]
     @ map InstallTraffic [0..<n]
     @ [AttachToClosestGnb, EnableTraces ''DlDataPhy'', EnableTraces ''DlMacSched'',
        EnableTraces ''GnbMacCtrlMsgs'', EnableTraces ''Pathloss'',
        SimulatorStop simTime, SetSeed (rngSeed v), SetRun (rngRun v), SimulatorRun,
        SimulatorDestroy]"

text \<open>
  The three configuration errors: an error-model name that does not resolve, a
  link-adaptation mode or a channel model outside the supported ones.
\<close>

definition fatalSetup :: "collab \<Rightarrow> vars \<Rightarrow> bool" where
  "fatalSetup col v =
     (\<not> knownTypeId col (errorModelType v)
      \<or> amcSelectionModel v \<notin> {''ErrorModel'', ''ShannonModel''}
      \<or> channelModel v \<notin> {''ThreeGpp'', ''NYU'', ''TwoRay'', ''Friis''})"

section \<open>The command line\<close>

lemma cmdAtParse_names:
  "set cmdAtParse = {''seed'', ''run'', ''channelModel'', ''channelConditionModel'', ''ueNum'',
                    ''gNbNum'', ''frequency'', ''logging''}"
  by (auto simp: cmdAtParse_def AddValue_def)

lemma cmdAtEnd_names:
  "set cmdAtEnd = set cmdAtParse \<union> {''errorModelType'', ''amcSelectionModel''}"
  by (auto simp: cmdAtEnd_def AddValue_def)

lemma assign_early:
  assumes "name \<in> set cmdAtParse" and "assign name a v = Some v'"
  shows "amcSelectionModel v' = amcSelectionModel v \<and> errorModelType v' = errorModelType v"
  using assms unfolding cmdAtParse_names by (cases a) (auto split: if_splits)

lemma Parse_keeps_late:
  "Parse g cmdAtParse args v = Inr v' \<Longrightarrow>
   amcSelectionModel v' = amcSelectionModel v \<and> errorModelType v' = errorModelType v"
proof (induction args arbitrary: v)
  case Nil
  then show ?case by simp
next
  case (Cons x args)
  obtain name a where x: "x = (name, a)" by (cases x)
  show ?case
  proof (cases "name \<in> set cmdAtParse")
    case True
    with Cons.prems x obtain w where w: "assign name a v = Some w"
      and r: "Parse g cmdAtParse args w = Inr v'"
      by (auto split: option.splits)
    from Cons.IH [OF r] assign_early [OF True w] show ?thesis by simp
  next
    case False
    with Cons.prems x have "Parse g cmdAtParse args v = Inr v'"
      by (auto split: if_splits)
    from Cons.IH [OF this] show ?thesis .
  qed
qed

lemma late_flags_keep_defaults:
  "parsedVars col args = Inr v \<Longrightarrow>
   amcSelectionModel v = ''ErrorModel'' \<and> errorModelType v = ''ns3::NrEesmCcT1''"
  using Parse_keeps_late [of "globalOption col" args initialVars v]
  by (simp add: parsedVars_def initialVars_def)


text \<open>
  Claim C5 asks that the flags \<open>errorModelType\<close> and \<open>amcSelectionModel\<close> take effect when
  supplied. They are bound after the command line has been read, so they never do: a
  library that rejects unknown flags exits on them, and one that lets them pass leaves
  both variables at their initial values.
\<close>

theorem late_flags_not_read:
  "main demoCollab [(''amcSelectionModel'', StringArg ''ShannonModel'')]
     = (ParseExit ''Invalid command-line option: --amcSelectionModel'', initialSim)
   \<and> main demoCollab [(''errorModelType'', StringArg ''ns3::NrLteMiErrorModel'')]
     = (ParseExit ''Invalid command-line option: --errorModelType'', initialSim)
   \<and> parsedVars (demoCollab\<lparr>globalOption := \<lambda>n. True\<rparr>)
        [(''amcSelectionModel'', StringArg ''ShannonModel''),
         (''errorModelType'', StringArg ''ns3::NrLteMiErrorModel'')]
     = Inr initialVars"
  by (simp add: main_def parsedVars_def cmdAtParse_names demoCollab_def)

section \<open>The two loops over the terminals\<close>

lemma length_placeStep [simp]: "length (ueNodes (placeStep i s)) = length (ueNodes s)"
  by (simp add: placeStep_def emit_def)

lemma placeLoop_length [simp]: "length (ueNodes (placeLoop i s)) = length (ueNodes s)"
  by (induction i s rule: placeLoop.induct) (subst placeLoop.simps, simp)

lemma placeLoop_trace:
  "trace (placeLoop i s) =
     trace s @ map (\<lambda>j. SetPosition j (overridePosition j)) [i..<length (ueNodes s)]"
proof (induction i s rule: placeLoop.induct)
  case (1 i s)
  show ?case
  proof (cases "i < length (ueNodes s)")
    case True
    then have "trace (placeLoop i s) = trace (placeLoop (Suc i) (placeStep i s))"
      by (subst placeLoop.simps) simp
    also have "\<dots> = trace (placeStep i s)
        @ map (\<lambda>j. SetPosition j (overridePosition j)) [Suc i..<length (ueNodes s)]"
      using 1 True by simp
    finally show ?thesis
      using True by (simp add: placeStep_def emit_def upt_conv_Cons)
  next
    case False
    then show ?thesis by (subst placeLoop.simps) simp
  qed
qed

lemma placeLoop_nth:
  "j < length (ueNodes s) \<Longrightarrow>
   ueNodes (placeLoop i s) ! j =
     (if i \<le> j then (ueNodes s ! j)\<lparr>position := overridePosition j\<rparr> else ueNodes s ! j)"
proof (induction i s rule: placeLoop.induct)
  case (1 i s)
  show ?case
  proof (cases "i < length (ueNodes s)")
    case True
    have "ueNodes (placeLoop i s) ! j = ueNodes (placeLoop (Suc i) (placeStep i s)) ! j"
      using True by (subst placeLoop.simps) simp
    also have "\<dots> = (if Suc i \<le> j then (ueNodes (placeStep i s) ! j)\<lparr>position := overridePosition j\<rparr>
                      else ueNodes (placeStep i s) ! j)"
      using 1 True by simp
    finally show ?thesis
      using True "1.prems" by (cases "i = j") (auto simp: placeStep_def emit_def nth_list_update)
  next
    case False
    then show ?thesis using "1.prems" by (subst placeLoop.simps) simp
  qed
qed


lemma placeLoop_velocity:
  "j < length (ueNodes s) \<Longrightarrow> velocity (ueNodes (placeLoop i s) ! j) = velocity (ueNodes s ! j)"
  by (simp add: placeLoop_nth)

lemma placeLoop_rest:
  "gNbNodes (placeLoop i s) = gNbNodes s \<and> defaults (placeLoop i s) = defaults s
   \<and> nrHelper (placeLoop i s) = nrHelper s \<and> channelHelper (placeLoop i s) = channelHelper s
   \<and> randomStream (placeLoop i s) = randomStream s"
proof (induction i s rule: placeLoop.induct)
  case (1 i s)
  show ?case
  proof (cases "i < length (ueNodes s)")
    case True
    then show ?thesis
      using 1 by (subst (1 2 3 4 5) placeLoop.simps) (simp add: placeStep_def emit_def)
  next
    case False
    then show ?thesis by (subst (1 2 3 4 5) placeLoop.simps) simp
  qed
qed

lemma length_moveStep [simp]: "length (ueNodes (moveStep i s)) = length (ueNodes s)"
  by (simp add: moveStep_def emit_def)

lemma moveLoop_length [simp]: "length (ueNodes (moveLoop i s)) = length (ueNodes s)"
  by (induction i s rule: moveLoop.induct) (subst moveLoop.simps, simp)

lemma moveLoop_trace:
  "trace (moveLoop i s) =
     trace s @ map (\<lambda>j. SetVelocity j (zigzagVelocity j)) [i..<length (ueNodes s)]"
proof (induction i s rule: moveLoop.induct)
  case (1 i s)
  show ?case
  proof (cases "i < length (ueNodes s)")
    case True
    then have "trace (moveLoop i s) = trace (moveLoop (Suc i) (moveStep i s))"
      by (subst moveLoop.simps) simp
    also have "\<dots> = trace (moveStep i s)
        @ map (\<lambda>j. SetVelocity j (zigzagVelocity j)) [Suc i..<length (ueNodes s)]"
      using 1 True by simp
    finally show ?thesis
      using True by (simp add: moveStep_def emit_def upt_conv_Cons)
  next
    case False
    then show ?thesis by (subst moveLoop.simps) simp
  qed
qed

lemma moveLoop_nth:
  "j < length (ueNodes s) \<Longrightarrow>
   ueNodes (moveLoop i s) ! j =
     (if i \<le> j then (ueNodes s ! j)\<lparr>velocity := zigzagVelocity j\<rparr> else ueNodes s ! j)"
proof (induction i s rule: moveLoop.induct)
  case (1 i s)
  show ?case
  proof (cases "i < length (ueNodes s)")
    case True
    have "ueNodes (moveLoop i s) ! j = ueNodes (moveLoop (Suc i) (moveStep i s)) ! j"
      using True by (subst moveLoop.simps) simp
    also have "\<dots> = (if Suc i \<le> j then (ueNodes (moveStep i s) ! j)\<lparr>velocity := zigzagVelocity j\<rparr>
                      else ueNodes (moveStep i s) ! j)"
      using 1 True by simp
    finally show ?thesis
      using True "1.prems" by (cases "i = j") (auto simp: moveStep_def emit_def nth_list_update)
  next
    case False
    then show ?thesis using "1.prems" by (subst moveLoop.simps) simp
  qed
qed

lemma moveLoop_rest:
  "gNbNodes (moveLoop i s) = gNbNodes s \<and> defaults (moveLoop i s) = defaults s
   \<and> nrHelper (moveLoop i s) = nrHelper s \<and> channelHelper (moveLoop i s) = channelHelper s
   \<and> randomStream (moveLoop i s) = randomStream s"
proof (induction i s rule: moveLoop.induct)
  case (1 i s)
  show ?case
  proof (cases "i < length (ueNodes s)")
    case True
    then show ?thesis
      using 1 by (subst (1 2 3 4 5) moveLoop.simps) (simp add: moveStep_def emit_def)
  next
    case False
    then show ?thesis by (subst (1 2 3 4 5) moveLoop.simps) simp
  qed
qed

lemma topology_ueNodes:
  "ueNodes (topology col v s) =
     map (\<lambda>i. \<lparr>position = gridPosition col i, velocity = Vector ueSpeed 0 0\<rparr>) [0..<unat (numUes v)]"
  by (simp add: topology_def CreateScenarioWithMobility_def emit_def hexGrid_def)

lemma topology_trace:
  "trace (topology col v s) =
     trace s @ map (\<lambda>i. Created i (gridPosition col i) (Vector ueSpeed 0 0)) [0..<unat (numUes v)]"
  by (simp add: topology_def CreateScenarioWithMobility_def emit_def hexGrid_def)

lemma topology_rest:
  "gNbNodes (topology col v s) = unat (numGnbs v) \<and> defaults (topology col v s) = defaults s
   \<and> nrHelper (topology col v s) = nrHelper s \<and> channelHelper (topology col v s) = channelHelper s
   \<and> randomStream (topology col v s) = randomStream s"
  by (simp add: topology_def CreateScenarioWithMobility_def emit_def hexGrid_def)

lemma scene_length: "length (ueNodes (scene col v)) = unat (numUes v)"
  by (simp add: scene_def mobility_def placement_def topology_ueNodes)

lemma scene_nth:
  "i < unat (numUes v) \<Longrightarrow>
   ueNodes (scene col v) ! i = \<lparr>position = overridePosition i, velocity = zigzagVelocity i\<rparr>"
  by (simp add: scene_def mobility_def placement_def moveLoop_nth placeLoop_nth topology_ueNodes)

lemma scene_trace:
  "trace (scene col v) =
     map (\<lambda>i. Created i (gridPosition col i) (Vector ueSpeed 0 0)) [0..<unat (numUes v)]
     @ map (\<lambda>j. SetPosition j (overridePosition j)) [0..<unat (numUes v)]
     @ map (\<lambda>j. SetVelocity j (zigzagVelocity j)) [0..<unat (numUes v)]"
  by (simp add: scene_def mobility_def placement_def moveLoop_trace placeLoop_trace
      topology_trace topology_ueNodes initialSim_def)

lemma scene_rest:
  "gNbNodes (scene col v) = unat (numGnbs v) \<and> defaults (scene col v) = Map.empty
   \<and> nrHelper (scene col v) = newNrHelper \<and> channelHelper (scene col v) = newChannelHelper
   \<and> randomStream (scene col v) = 1"
  by (simp add: scene_def mobility_def placement_def moveLoop_rest placeLoop_rest
      topology_rest initialSim_def)

section \<open>Placement and mobility\<close>

text \<open>
  Claim C3. With \<open>ueNum = N\<close> the topology stage yields exactly \<open>N\<close> terminals, and the
  placement override keeps that number. After the override terminal 0 is at
  \<open>(10, 20, terminalHeight)\<close>, and every terminal \<open>i > 0\<close> is at \<open>x = 50 * i\<close>, \<open>y = 30\<close> for
  an even \<open>i\<close> and \<open>- 30\<close> for an odd one, \<open>z = terminalHeight\<close>, the height given to the
  grid helper.
\<close>

theorem placement_positions:
  "length (ueNodes (topology col v initialSim)) = unat (numUes v)
   \<and> length (ueNodes (placement (topology col v initialSim))) = unat (numUes v)
   \<and> (\<forall>i < unat (numUes v).
         position (ueNodes (placement (topology col v initialSim)) ! i) =
           (if i = 0 then Vector 10 20 (utHeight (hexGrid v))
            else Vector (50 * real i) (if even i then 30 else - 30) (utHeight (hexGrid v))))"
proof (intro conjI allI impI)
  show "length (ueNodes (topology col v initialSim)) = unat (numUes v)"
    by (simp add: topology_ueNodes)
  show "length (ueNodes (placement (topology col v initialSim))) = unat (numUes v)"
    by (simp add: placement_def topology_ueNodes)
next
  fix i assume "i < unat (numUes v)"
  then have "position (ueNodes (placement (topology col v initialSim)) ! i) = overridePosition i"
    by (simp add: placement_def placeLoop_nth topology_ueNodes)
  then show "position (ueNodes (placement (topology col v initialSim)) ! i) =
           (if i = 0 then Vector 10 20 (utHeight (hexGrid v))
            else Vector (50 * real i) (if even i then 30 else - 30) (utHeight (hexGrid v)))"
    by (simp add: overridePosition_def hexGrid_def even_iff_mod_2_eq_zero)
qed

theorem placement_positions_witness:
  "length (ueNodes (topology demoCollab initialVars initialSim)) = 4
   \<and> position (ueNodes (placement (topology demoCollab initialVars initialSim)) ! 0)
       = Vector 10 20 1.5
   \<and> position (ueNodes (placement (topology demoCollab initialVars initialSim)) ! 2)
       = Vector 100 30 1.5
   \<and> position (ueNodes (placement (topology demoCollab initialVars initialSim)) ! 3)
       = Vector 150 (- 30) 1.5"
proof -
  have n: "unat (numUes initialVars) = 4"
    by (simp add: initialVars_def)
  note c = placement_positions [of demoCollab initialVars]
  have all: "\<forall>i<4. position (ueNodes (placement (topology demoCollab initialVars initialSim)) ! i) =
           (if i = 0 then Vector 10 20 (utHeight (hexGrid initialVars))
            else Vector (50 * real i) (if even i then 30 else - 30) (utHeight (hexGrid initialVars)))"
    using c n by simp
  have h: "utHeight (hexGrid initialVars) = 1.5"
    by (simp add: hexGrid_def)
  from all have "position (ueNodes (placement (topology demoCollab initialVars initialSim)) ! 0)
       = Vector 10 20 1.5"
    using h by simp
  moreover from all have "position (ueNodes (placement (topology demoCollab initialVars initialSim)) ! 2)
       = Vector 100 30 1.5"
    using h by simp
  moreover from all have "position (ueNodes (placement (topology demoCollab initialVars initialSim)) ! 3)
       = Vector 150 (- 30) 1.5"
    using h by simp
  moreover have "length (ueNodes (topology demoCollab initialVars initialSim)) = 4"
    using c n by simp
  ultimately show ?thesis by simp
qed

text \<open>
  Claim C7. After the mobility assignment, terminal \<open>i\<close> moves with \<open>(speed, speed, 0)\<close>
  when \<open>i\<close> is even and with \<open>(speed, - speed, 0)\<close> when \<open>i\<close> is odd, for
  \<open>speed = 1 + 3 * i\<close>.
\<close>

theorem mobility_velocities:
  "\<forall>i < unat (numUes v).
      velocity (ueNodes (mobility (placement (topology col v initialSim))) ! i) =
        (if even i then Vector (1 + 3 * real i) (1 + 3 * real i) 0
         else Vector (1 + 3 * real i) (- (1 + 3 * real i)) 0)"
proof (intro allI impI)
  fix i assume "i < unat (numUes v)"
  then have "velocity (ueNodes (scene col v) ! i) = zigzagVelocity i"
    by (simp add: scene_nth)
  then show "velocity (ueNodes (mobility (placement (topology col v initialSim))) ! i) =
        (if even i then Vector (1 + 3 * real i) (1 + 3 * real i) 0
         else Vector (1 + 3 * real i) (- (1 + 3 * real i)) 0)"
    by (simp add: scene_def zigzagVelocity_def Let_def even_iff_mod_2_eq_zero mult.commute)
qed

theorem mobility_velocities_witness:
  "velocity (ueNodes (mobility (placement (topology demoCollab initialVars initialSim))) ! 0)
       = Vector 1 1 0
   \<and> velocity (ueNodes (mobility (placement (topology demoCollab initialVars initialSim))) ! 1)
       = Vector 4 (- 4) 0
   \<and> velocity (ueNodes (mobility (placement (topology demoCollab initialVars initialSim))) ! 2)
       = Vector 7 7 0"
proof -
  have n: "unat (numUes initialVars) = 4"
    by (simp add: initialVars_def)
  have all: "\<forall>i<4. velocity (ueNodes (mobility (placement (topology demoCollab initialVars initialSim))) ! i) =
        (if even i then Vector (1 + 3 * real i) (1 + 3 * real i) 0
         else Vector (1 + 3 * real i) (- (1 + 3 * real i)) 0)"
    using mobility_velocities [of initialVars demoCollab] n by simp
  from all have "velocity (ueNodes (mobility (placement (topology demoCollab initialVars initialSim))) ! 0)
       = Vector 1 1 0" by simp
  moreover from all have "velocity (ueNodes (mobility (placement (topology demoCollab initialVars initialSim))) ! 1)
       = Vector 4 (- 4) 0" by simp
  moreover from all have "velocity (ueNodes (mobility (placement (topology demoCollab initialVars initialSim))) ! 2)
       = Vector 7 7 0" by simp
  ultimately show ?thesis by simp
qed

section \<open>The dispatch on the channel model\<close>

lemmas setter_defs =
  SetDefault_def SetBeamformingHelper_def SetBeamformingAttribute_def SetUeAntennaAttribute_def
  SetGnbAntennaAttribute_def SetUeAntennaTypeId_def SetGnbAntennaTypeId_def
  SetGnbPhyAttribute_def SetUePhyAttribute_def SetSchedulerAttribute_def SetUlErrorModel_def
  SetDlErrorModel_def SetGnbDlAmcAttribute_def SetGnbUlAmcAttribute_def ConfigureFactories_def
  SetPathlossAttribute_def SetChannelConditionModelAttribute_def ConfigurePropagationFactory_def
  AssignChannelsToBands_def

lemmas constant_defs =
  scenario_def ueNumRows_def ueNumCols_def gnbNumRows_def gnbNumCols_def MilliSeconds_def

lemma configureChannel_phased:
  assumes "channelModel v = ''ThreeGpp'' \<or> channelModel v = ''NYU'' \<or> channelModel v = ''TwoRay''"
  shows "configureChannel v s =
    Inr (s\<lparr>nrHelper := (nrHelper s)
            \<lparr>idealBeamformingHelper :=
               Some [''BeamformingMethod'' \<mapsto> TypeIdValue DirectPathBeamforming],
             ueAntennaAttrs := (ueAntennaAttrs (nrHelper s))
               (''NumRows'' \<mapsto> UintegerValue 1, ''NumColumns'' \<mapsto> UintegerValue 1,
                ''AntennaElement'' \<mapsto> PointerValue IsotropicAntennaModel),
             gnbAntennaAttrs := (gnbAntennaAttrs (nrHelper s))
               (''NumRows'' \<mapsto> UintegerValue 4, ''NumColumns'' \<mapsto> UintegerValue 8,
                ''AntennaElement'' \<mapsto> PointerValue IsotropicAntennaModel)\<rparr>,
          channelHelper := (channelHelper s)
            \<lparr>factories := Some (''UMa'', channelConditionModel v, channelModel v),
             pathlossAttrs := (pathlossAttrs (channelHelper s))
               (''ShadowingEnabled'' \<mapsto> BooleanValue True),
             conditionAttrs :=
               (if channelConditionModel v = ''Default'' \<or> channelConditionModel v = ''Buildings''
                then (conditionAttrs (channelHelper s))(''UpdatePeriod'' \<mapsto> TimeValue 100)
                else conditionAttrs (channelHelper s))\<rparr>\<rparr>)"
  using assms by (simp add: configureChannel_def setter_defs constant_defs Let_def)

lemma configureChannel_friis:
  assumes "channelModel v = ''Friis''"
  shows "configureChannel v s =
    Inr (s\<lparr>nrHelper := (nrHelper s)
            \<lparr>ueAntennaTypeId := Some ParabolicAntennaModel,
             gnbAntennaTypeId := Some ParabolicAntennaModel\<rparr>,
          channelHelper := (channelHelper s)
            \<lparr>propagationFactory := Some FriisPropagationLossModel\<rparr>\<rparr>)"
  using assms by (simp add: configureChannel_def setter_defs Let_def)

lemma configureChannel_invalid:
  assumes "channelModel v \<noteq> ''ThreeGpp''" "channelModel v \<noteq> ''NYU''"
    "channelModel v \<noteq> ''TwoRay''" "channelModel v \<noteq> ''Friis''"
  shows "configureChannel v s =
    Inl (''Invalid channel model: '' @ channelModel v
           @ ''. Choose among 'ThreeGpp', 'NYU', 'TwoRay', 'Friis'.'', s)"
  using assms by (simp add: configureChannel_def)

lemma createHelpers_fields:
  "nrHelper (createHelpers s) = newNrHelper" "channelHelper (createHelpers s) = newChannelHelper"
  "trace (createHelpers s) = trace s" "ueNodes (createHelpers s) = ueNodes s"
  "gNbNodes (createHelpers s) = gNbNodes s" "randomStream (createHelpers s) = randomStream s"
  "defaults (createHelpers s) =
     (defaults s)(''ns3::NrRlcUm::MaxTxBufferSize'' \<mapsto> UintegerValue 999999999)"
  by (simp_all add: createHelpers_def SetDefault_def)

text \<open>
  Claim C1. For every channel model among ThreeGpp, NYU and TwoRay, the dispatch on the
  freshly created helpers yields the phased-array bundle: the isotropic antenna element
  for terminals and base stations, a 1 x 1 array for the terminals and a 4 x 8 array for
  the base stations, the ideal beamforming helper with the direct-path method, and
  shadowing enabled. For Friis it yields the parabolic antenna type on both sides and the
  Friis propagation-loss factory, with no array dimensions and no beamforming helper.
\<close>

theorem channel_bundle:
  "(channelModel v \<in> {''ThreeGpp'', ''NYU'', ''TwoRay''} \<longrightarrow>
      (\<exists>s'. configureChannel v (createHelpers s) = Inr s'
         \<and> ueAntennaAttrs (nrHelper s') ''AntennaElement'' = Some (PointerValue IsotropicAntennaModel)
         \<and> gnbAntennaAttrs (nrHelper s') ''AntennaElement'' = Some (PointerValue IsotropicAntennaModel)
         \<and> ueAntennaAttrs (nrHelper s') ''NumRows'' = Some (UintegerValue 1)
         \<and> ueAntennaAttrs (nrHelper s') ''NumColumns'' = Some (UintegerValue 1)
         \<and> gnbAntennaAttrs (nrHelper s') ''NumRows'' = Some (UintegerValue 4)
         \<and> gnbAntennaAttrs (nrHelper s') ''NumColumns'' = Some (UintegerValue 8)
         \<and> idealBeamformingHelper (nrHelper s')
             = Some [''BeamformingMethod'' \<mapsto> TypeIdValue DirectPathBeamforming]
         \<and> pathlossAttrs (channelHelper s') ''ShadowingEnabled'' = Some (BooleanValue True)
         \<and> factories (channelHelper s') = Some (''UMa'', channelConditionModel v, channelModel v)
         \<and> ueAntennaTypeId (nrHelper s') = None
         \<and> gnbAntennaTypeId (nrHelper s') = None
         \<and> propagationFactory (channelHelper s') = None))
   \<and> (channelModel v = ''Friis'' \<longrightarrow>
      (\<exists>s'. configureChannel v (createHelpers s) = Inr s'
         \<and> ueAntennaTypeId (nrHelper s') = Some ParabolicAntennaModel
         \<and> gnbAntennaTypeId (nrHelper s') = Some ParabolicAntennaModel
         \<and> propagationFactory (channelHelper s') = Some FriisPropagationLossModel
         \<and> ueAntennaAttrs (nrHelper s') = Map.empty
         \<and> gnbAntennaAttrs (nrHelper s') = Map.empty
         \<and> idealBeamformingHelper (nrHelper s') = None
         \<and> factories (channelHelper s') = None
         \<and> pathlossAttrs (channelHelper s') = Map.empty
         \<and> conditionAttrs (channelHelper s') = Map.empty))"
proof (intro conjI impI)
  assume "channelModel v \<in> {''ThreeGpp'', ''NYU'', ''TwoRay''}"
  then have "channelModel v = ''ThreeGpp'' \<or> channelModel v = ''NYU'' \<or> channelModel v = ''TwoRay''"
    by simp
  from configureChannel_phased [OF this, of "createHelpers s"]
  show "\<exists>s'. configureChannel v (createHelpers s) = Inr s'
         \<and> ueAntennaAttrs (nrHelper s') ''AntennaElement'' = Some (PointerValue IsotropicAntennaModel)
         \<and> gnbAntennaAttrs (nrHelper s') ''AntennaElement'' = Some (PointerValue IsotropicAntennaModel)
         \<and> ueAntennaAttrs (nrHelper s') ''NumRows'' = Some (UintegerValue 1)
         \<and> ueAntennaAttrs (nrHelper s') ''NumColumns'' = Some (UintegerValue 1)
         \<and> gnbAntennaAttrs (nrHelper s') ''NumRows'' = Some (UintegerValue 4)
         \<and> gnbAntennaAttrs (nrHelper s') ''NumColumns'' = Some (UintegerValue 8)
         \<and> idealBeamformingHelper (nrHelper s')
             = Some [''BeamformingMethod'' \<mapsto> TypeIdValue DirectPathBeamforming]
         \<and> pathlossAttrs (channelHelper s') ''ShadowingEnabled'' = Some (BooleanValue True)
         \<and> factories (channelHelper s') = Some (''UMa'', channelConditionModel v, channelModel v)
         \<and> ueAntennaTypeId (nrHelper s') = None
         \<and> gnbAntennaTypeId (nrHelper s') = None
         \<and> propagationFactory (channelHelper s') = None"
    by (simp add: createHelpers_fields newNrHelper_def newChannelHelper_def)
next
  assume "channelModel v = ''Friis''"
  from configureChannel_friis [OF this, of "createHelpers s"]
  show "\<exists>s'. configureChannel v (createHelpers s) = Inr s'
         \<and> ueAntennaTypeId (nrHelper s') = Some ParabolicAntennaModel
         \<and> gnbAntennaTypeId (nrHelper s') = Some ParabolicAntennaModel
         \<and> propagationFactory (channelHelper s') = Some FriisPropagationLossModel
         \<and> ueAntennaAttrs (nrHelper s') = Map.empty
         \<and> gnbAntennaAttrs (nrHelper s') = Map.empty
         \<and> idealBeamformingHelper (nrHelper s') = None
         \<and> factories (channelHelper s') = None
         \<and> pathlossAttrs (channelHelper s') = Map.empty
         \<and> conditionAttrs (channelHelper s') = Map.empty"
    by (simp add: createHelpers_fields newNrHelper_def newChannelHelper_def)
qed

text \<open>
  Claim C4. For every phased-array channel model, the update period of the channel
  condition is set to 100 ms if and only if the channel-condition model is Default or
  Buildings; for LOS and NLOS it stays unset, as the library leaves it.
\<close>

theorem update_period:
  assumes "channelModel v \<in> {''ThreeGpp'', ''NYU'', ''TwoRay''}"
  shows "\<exists>s'. configureChannel v (createHelpers s) = Inr s'
     \<and> (conditionAttrs (channelHelper s') ''UpdatePeriod'' = Some (TimeValue (MilliSeconds 100))
          \<longleftrightarrow> channelConditionModel v \<in> {''Default'', ''Buildings''})
     \<and> (channelConditionModel v \<in> {''LOS'', ''NLOS''}
          \<longrightarrow> conditionAttrs (channelHelper s') ''UpdatePeriod'' = None)
     \<and> (channelConditionModel v \<notin> {''Default'', ''Buildings''}
          \<longrightarrow> conditionAttrs (channelHelper s') = Map.empty)"
proof -
  from assms
  have "channelModel v = ''ThreeGpp'' \<or> channelModel v = ''NYU'' \<or> channelModel v = ''TwoRay''"
    by simp
  from configureChannel_phased [OF this, of "createHelpers s"]
  show ?thesis
    by (auto simp: createHelpers_fields newChannelHelper_def MilliSeconds_def)
qed

theorem channel_bundle_witness:
  "(\<exists>s'. configureChannel initialVars (createHelpers initialSim) = Inr s'
      \<and> ueAntennaAttrs (nrHelper s') ''AntennaElement'' = Some (PointerValue IsotropicAntennaModel)
      \<and> gnbAntennaAttrs (nrHelper s') ''NumRows'' = Some (UintegerValue 4)
      \<and> gnbAntennaAttrs (nrHelper s') ''NumColumns'' = Some (UintegerValue 8))
   \<and> (\<exists>s'. configureChannel (initialVars\<lparr>channelModel := ''Friis''\<rparr>) (createHelpers initialSim) = Inr s'
      \<and> ueAntennaTypeId (nrHelper s') = Some ParabolicAntennaModel
      \<and> propagationFactory (channelHelper s') = Some FriisPropagationLossModel
      \<and> idealBeamformingHelper (nrHelper s') = None)"
proof -
  have a: "channelModel initialVars \<in> {''ThreeGpp'', ''NYU'', ''TwoRay''}"
    by (simp add: initialVars_def)
  have b: "channelModel (initialVars\<lparr>channelModel := ''Friis''\<rparr>) = ''Friis''"
    by simp
  from channel_bundle [of initialVars initialSim] a
  have "\<exists>s'. configureChannel initialVars (createHelpers initialSim) = Inr s'
      \<and> ueAntennaAttrs (nrHelper s') ''AntennaElement'' = Some (PointerValue IsotropicAntennaModel)
      \<and> gnbAntennaAttrs (nrHelper s') ''NumRows'' = Some (UintegerValue 4)
      \<and> gnbAntennaAttrs (nrHelper s') ''NumColumns'' = Some (UintegerValue 8)"
    by blast
  moreover from channel_bundle [of "initialVars\<lparr>channelModel := ''Friis''\<rparr>" initialSim] b
  have "\<exists>s'. configureChannel (initialVars\<lparr>channelModel := ''Friis''\<rparr>) (createHelpers initialSim) = Inr s'
      \<and> ueAntennaTypeId (nrHelper s') = Some ParabolicAntennaModel
      \<and> propagationFactory (channelHelper s') = Some FriisPropagationLossModel
      \<and> idealBeamformingHelper (nrHelper s') = None"
    by blast
  ultimately show ?thesis by blast
qed

theorem update_period_witness:
  "(\<exists>s'. configureChannel initialVars (createHelpers initialSim) = Inr s'
      \<and> conditionAttrs (channelHelper s') ''UpdatePeriod'' = Some (TimeValue (MilliSeconds 100)))
   \<and> (\<exists>s'. configureChannel (initialVars\<lparr>channelConditionModel := ''LOS''\<rparr>)
              (createHelpers initialSim) = Inr s'
      \<and> conditionAttrs (channelHelper s') ''UpdatePeriod'' = None)"
proof -
  have a: "channelModel initialVars \<in> {''ThreeGpp'', ''NYU'', ''TwoRay''}"
    and c: "channelConditionModel initialVars \<in> {''Default'', ''Buildings''}"
    by (simp_all add: initialVars_def)
  have b: "channelModel (initialVars\<lparr>channelConditionModel := ''LOS''\<rparr>)
             \<in> {''ThreeGpp'', ''NYU'', ''TwoRay''}"
    and d: "channelConditionModel (initialVars\<lparr>channelConditionModel := ''LOS''\<rparr>)
             \<in> {''LOS'', ''NLOS''}"
    by (simp_all add: initialVars_def)
  from update_period [OF a, of initialSim] c
  have "\<exists>s'. configureChannel initialVars (createHelpers initialSim) = Inr s'
      \<and> conditionAttrs (channelHelper s') ''UpdatePeriod'' = Some (TimeValue (MilliSeconds 100))"
    by blast
  moreover from update_period [OF b, of initialSim] d
  have "\<exists>s'. configureChannel (initialVars\<lparr>channelConditionModel := ''LOS''\<rparr>)
              (createHelpers initialSim) = Inr s'
      \<and> conditionAttrs (channelHelper s') ''UpdatePeriod'' = None"
    by blast
  ultimately show ?thesis by blast
qed

subsection \<open>The four ways through the body\<close>

lemma configureAmc_unknown:
  "\<not> knownTypeId col (errorModelType v) \<Longrightarrow>
   configureAmc col v s = Inl (''TypeId::LookupByName: '' @ errorModelType v @ '' not found'', s)"
  by (simp add: configureAmc_def)

lemma configureAmc_invalid:
  "knownTypeId col (errorModelType v) \<Longrightarrow> amcSelectionModel v \<noteq> ''ErrorModel'' \<Longrightarrow>
   amcSelectionModel v \<noteq> ''ShannonModel'' \<Longrightarrow>
   configureAmc col v s =
     Inl (''Invalid amcSelectionModel: '' @ amcSelectionModel v,
          SetDefault ''ns3::NrAmc::ErrorModelType''
            (TypeIdValue (LookupByName (errorModelType v))) s)"
  by (simp add: configureAmc_def)

lemma configureAmc_valid:
  "knownTypeId col (errorModelType v) \<Longrightarrow>
   amcSelectionModel v = ''ErrorModel'' \<or> amcSelectionModel v = ''ShannonModel'' \<Longrightarrow>
   configureAmc col v s =
     Inr (SetDefault ''ns3::NrAmc::AmcModel'' (EnumValue (amcDefault v))
           (SetDefault ''ns3::NrAmc::ErrorModelType''
              (TypeIdValue (LookupByName (errorModelType v))) s))"
  by (auto simp: configureAmc_def amcDefault_def)

lemma configureAmc_Inr:
  "configureAmc col v s = Inr s1 \<Longrightarrow>
   knownTypeId col (errorModelType v)
   \<and> (amcSelectionModel v = ''ErrorModel'' \<or> amcSelectionModel v = ''ShannonModel'')"
  by (auto simp: configureAmc_def Let_def split: if_splits)

lemma configureChannel_Inr:
  "configureChannel v s = Inr s2 \<Longrightarrow>
   channelModel v = ''ThreeGpp'' \<or> channelModel v = ''NYU'' \<or> channelModel v = ''TwoRay''
   \<or> channelModel v = ''Friis''"
  by (auto simp: configureChannel_def Let_def split: if_splits)

lemma trace_setters [simp]:
  "trace (SetDefault n a s) = trace s"
  "trace (SetBeamformingHelper s) = trace s"
  "trace (SetBeamformingAttribute n a s) = trace s"
  "trace (SetUeAntennaAttribute n a s) = trace s"
  "trace (SetGnbAntennaAttribute n a s) = trace s"
  "trace (SetUeAntennaTypeId t s) = trace s"
  "trace (SetGnbAntennaTypeId t s) = trace s"
  "trace (SetGnbPhyAttribute n a s) = trace s"
  "trace (SetUePhyAttribute n a s) = trace s"
  "trace (SetSchedulerAttribute n a s) = trace s"
  "trace (SetUlErrorModel m s) = trace s"
  "trace (SetDlErrorModel m s) = trace s"
  "trace (SetGnbDlAmcAttribute n a s) = trace s"
  "trace (SetGnbUlAmcAttribute n a s) = trace s"
  "trace (ConfigureFactories x y z s) = trace s"
  "trace (SetPathlossAttribute n a s) = trace s"
  "trace (SetChannelConditionModelAttribute n a s) = trace s"
  "trace (ConfigurePropagationFactory t s) = trace s"
  "trace (AssignChannelsToBands s) = trace s"
  by (simp_all add: setter_defs)

lemma ueNodes_setters [simp]:
  "ueNodes (SetDefault n a s) = ueNodes s"
  "ueNodes (SetGnbPhyAttribute n a s) = ueNodes s"
  "ueNodes (SetUePhyAttribute n a s) = ueNodes s"
  "ueNodes (SetSchedulerAttribute n a s) = ueNodes s"
  "ueNodes (SetUlErrorModel m s) = ueNodes s"
  "ueNodes (SetDlErrorModel m s) = ueNodes s"
  "ueNodes (SetGnbDlAmcAttribute n a s) = ueNodes s"
  "ueNodes (SetGnbUlAmcAttribute n a s) = ueNodes s"
  "ueNodes (AssignChannelsToBands s) = ueNodes s"
  "ueNodes (emit es s) = ueNodes s"
  by (simp_all add: setter_defs emit_def)

lemma gNbNodes_setters [simp]:
  "gNbNodes (SetDefault n a s) = gNbNodes s"
  "gNbNodes (SetGnbPhyAttribute n a s) = gNbNodes s"
  "gNbNodes (SetUePhyAttribute n a s) = gNbNodes s"
  "gNbNodes (SetSchedulerAttribute n a s) = gNbNodes s"
  "gNbNodes (SetUlErrorModel m s) = gNbNodes s"
  "gNbNodes (SetDlErrorModel m s) = gNbNodes s"
  "gNbNodes (SetGnbDlAmcAttribute n a s) = gNbNodes s"
  "gNbNodes (SetGnbUlAmcAttribute n a s) = gNbNodes s"
  "gNbNodes (AssignChannelsToBands s) = gNbNodes s"
  "gNbNodes (emit es s) = gNbNodes s"
  by (simp_all add: setter_defs emit_def)

lemma configureGnbAmc_keeps:
  "trace (configureGnbAmc v s) = trace s" "ueNodes (configureGnbAmc v s) = ueNodes s"
  "gNbNodes (configureGnbAmc v s) = gNbNodes s" "defaults (configureGnbAmc v s) = defaults s"
  "randomStream (configureGnbAmc v s) = randomStream s"
  by (simp_all add: configureGnbAmc_def setter_defs)

lemma configureChannel_keeps:
  assumes "configureChannel v s = Inr s2"
  shows "trace s2 = trace s" "ueNodes s2 = ueNodes s" "gNbNodes s2 = gNbNodes s"
    "defaults s2 = defaults s" "randomStream s2 = randomStream s"
proof -
  from configureChannel_Inr [OF assms]
  consider "channelModel v = ''ThreeGpp'' \<or> channelModel v = ''NYU'' \<or> channelModel v = ''TwoRay''"
    | "channelModel v = ''Friis''" by blast
  then have "trace s2 = trace s \<and> ueNodes s2 = ueNodes s \<and> gNbNodes s2 = gNbNodes s
    \<and> defaults s2 = defaults s \<and> randomStream s2 = randomStream s"
  proof cases
    case 1
    from configureChannel_phased [OF this, of s] assms show ?thesis by auto
  next
    case 2
    from configureChannel_friis [OF this, of s] assms show ?thesis by auto
  qed
  then show "trace s2 = trace s" "ueNodes s2 = ueNodes s" "gNbNodes s2 = gNbNodes s"
    "defaults s2 = defaults s" "randomStream s2 = randomStream s" by simp_all
qed

lemma provision_trace:
  "trace (provision col v s) =
     trace s @ [InstallGnbDevice (gNbNodes s), InstallUeDevice (length (ueNodes s)),
                AssignStreams GnbDevices (randomStream s),
                AssignStreams UeDevices
                  (randomStream s + streamsUsed col GnbDevices (gNbNodes s) (randomStream s))]"
  by (simp add: provision_def Let_def assignStreams_def emit_def configureGnbAmc_keeps setter_defs)

lemma provision_ueNodes: "ueNodes (provision col v s) = ueNodes s"
  by (simp add: provision_def Let_def assignStreams_def emit_def configureGnbAmc_keeps setter_defs)

lemma tail_trace:
  "trace (run v (traffic (provision col v s))) =
     trace s @ tailEvents col v (gNbNodes s) (length (ueNodes s)) (randomStream s)"
  by (simp add: run_def traffic_def emit_def provision_trace provision_ueNodes tailEvents_def)

section \<open>The outcomes of the program\<close>

lemma mainBody_scene:
  "mainBody col v =
     (case configureAmc col v (scene col v) of
        Inl (msg, s') \<Rightarrow> (FatalError msg, s')
      | Inr s1 \<Rightarrow>
          (case configureChannel v (createHelpers s1) of
             Inl (msg, s') \<Rightarrow> (FatalError msg, s')
           | Inr s2 \<Rightarrow> (Return0, run v (traffic (provision col v s2)))))"
  by (simp add: mainBody_def scene_def Let_def)

lemma mainBody_unknown:
  assumes "\<not> knownTypeId col (errorModelType v)"
  shows "mainBody col v =
    (FatalError (''TypeId::LookupByName: '' @ errorModelType v @ '' not found''), scene col v)"
  by (simp add: mainBody_scene configureAmc_unknown [OF assms])

lemma mainBody_bad_amc:
  assumes "knownTypeId col (errorModelType v)" "amcSelectionModel v \<noteq> ''ErrorModel''"
    "amcSelectionModel v \<noteq> ''ShannonModel''"
  shows "mainBody col v =
    (FatalError (''Invalid amcSelectionModel: '' @ amcSelectionModel v),
     SetDefault ''ns3::NrAmc::ErrorModelType''
       (TypeIdValue (LookupByName (errorModelType v))) (scene col v))"
  by (simp add: mainBody_scene configureAmc_invalid [OF assms])

lemma mainBody_bad_channel:
  assumes "knownTypeId col (errorModelType v)"
    "amcSelectionModel v = ''ErrorModel'' \<or> amcSelectionModel v = ''ShannonModel''"
    "channelModel v \<noteq> ''ThreeGpp''" "channelModel v \<noteq> ''NYU''"
    "channelModel v \<noteq> ''TwoRay''" "channelModel v \<noteq> ''Friis''"
  shows "mainBody col v =
    (FatalError (''Invalid channel model: '' @ channelModel v
           @ ''. Choose among 'ThreeGpp', 'NYU', 'TwoRay', 'Friis'.''), afterAmc col v)"
  by (simp add: mainBody_scene configureAmc_valid [OF assms(1,2)] afterAmc_def
      configureChannel_invalid [OF assms(3-6)])

lemma mainBody_ok:
  assumes "knownTypeId col (errorModelType v)"
    "amcSelectionModel v = ''ErrorModel'' \<or> amcSelectionModel v = ''ShannonModel''"
    "channelModel v = ''ThreeGpp'' \<or> channelModel v = ''NYU'' \<or> channelModel v = ''TwoRay''
     \<or> channelModel v = ''Friis''"
  shows "\<exists>s2. configureChannel v (afterAmc col v) = Inr s2
     \<and> mainBody col v = (Return0, run v (traffic (provision col v s2)))"
proof -
  from assms(3) obtain s2 where s2: "configureChannel v (afterAmc col v) = Inr s2"
    using configureChannel_phased [of v "afterAmc col v"]
      configureChannel_friis [of v "afterAmc col v"] by blast
  then have "mainBody col v = (Return0, run v (traffic (provision col v s2)))"
    by (simp add: mainBody_scene configureAmc_valid [OF assms(1,2)] afterAmc_def)
  with s2 show ?thesis by blast
qed

lemma afterAmc_fields:
  "trace (afterAmc col v) = trace (scene col v)"
  "ueNodes (afterAmc col v) = ueNodes (scene col v)"
  "gNbNodes (afterAmc col v) = unat (numGnbs v)"
  "randomStream (afterAmc col v) = 1"
  "nrHelper (afterAmc col v) = newNrHelper"
  "channelHelper (afterAmc col v) = newChannelHelper"
  "defaults (afterAmc col v) ''ns3::NrAmc::AmcModel'' = Some (EnumValue (amcDefault v))"
  by (simp_all add: afterAmc_def createHelpers_fields scene_rest SetDefault_def)

lemma mainBody_fatal:
  assumes "fatalSetup col v"
  shows "(\<exists>msg. fst (mainBody col v) = FatalError msg)
     \<and> trace (snd (mainBody col v)) = trace (scene col v)"
proof -
  consider (a) "\<not> knownTypeId col (errorModelType v)"
    | (b) "knownTypeId col (errorModelType v)" "amcSelectionModel v \<noteq> ''ErrorModel''"
        "amcSelectionModel v \<noteq> ''ShannonModel''"
    | (c) "knownTypeId col (errorModelType v)"
        "amcSelectionModel v = ''ErrorModel'' \<or> amcSelectionModel v = ''ShannonModel''"
        "channelModel v \<noteq> ''ThreeGpp''" "channelModel v \<noteq> ''NYU''"
        "channelModel v \<noteq> ''TwoRay''" "channelModel v \<noteq> ''Friis''"
    using assms unfolding fatalSetup_def by auto
  then show ?thesis
  proof cases
    case a
    then show ?thesis by (simp add: mainBody_unknown)
  next
    case b
    then show ?thesis by (simp add: mainBody_bad_amc)
  next
    case c
    then show ?thesis by (simp add: mainBody_bad_channel afterAmc_fields)
  qed
qed

lemma mainBody_returns:
  assumes "\<not> fatalSetup col v"
  shows "fst (mainBody col v) = Return0
     \<and> trace (snd (mainBody col v)) =
         trace (scene col v) @ tailEvents col v (unat (numGnbs v)) (unat (numUes v)) 1"
proof -
  from assms have k: "knownTypeId col (errorModelType v)"
    and a: "amcSelectionModel v = ''ErrorModel'' \<or> amcSelectionModel v = ''ShannonModel''"
    and c: "channelModel v = ''ThreeGpp'' \<or> channelModel v = ''NYU'' \<or> channelModel v = ''TwoRay''
     \<or> channelModel v = ''Friis''"
    unfolding fatalSetup_def by auto
  from mainBody_ok [OF k a c] obtain s2 where
    s2: "configureChannel v (afterAmc col v) = Inr s2"
    and m: "mainBody col v = (Return0, run v (traffic (provision col v s2)))" by blast
  from configureChannel_keeps [OF s2]
  have "trace s2 = trace (scene col v)" "length (ueNodes s2) = unat (numUes v)"
    "gNbNodes s2 = unat (numGnbs v)" "randomStream s2 = 1"
    by (simp_all add: afterAmc_fields scene_length)
  with m show ?thesis by (simp add: tail_trace)
qed

lemma fatal_message_neq [simp]: "FatalError m \<noteq> Return0" "Return0 \<noteq> FatalError m"
  by simp_all


lemma scene_quiet:
  "SimulatorRun \<notin> set (trace (scene col v))"
  "\<not> list_ex installsDevice (trace (scene col v))"
  "\<not> list_ex enablesTraces (trace (scene col v))"
  by (auto simp: scene_trace list_ex_iff)

lemma main_cases:
  "(\<exists>msg. main col args = (ParseExit msg, initialSim))
   \<or> (\<exists>v. parsedVars col args = Inr v \<and> main col args = mainBody col v)"
  by (cases "parsedVars col args") (simp_all add: main_def)

text \<open>
  Claim C8. The setup ends in a fatal error exactly for the three configuration errors
  (an unresolvable error-model name, an unsupported link-adaptation mode, an unsupported
  channel model). Whenever the program does not return normally, the event loop was never
  started, no trace output was enabled and no device was installed.
\<close>

theorem fatal_never_runs:
  "(fatalSetup col v \<longleftrightarrow> (\<exists>msg. fst (mainBody col v) = FatalError msg))
   \<and> (fst (mainBody col v) \<noteq> Return0 \<longrightarrow>
        SimulatorRun \<notin> set (trace (snd (mainBody col v)))
        \<and> \<not> list_ex enablesTraces (trace (snd (mainBody col v)))
        \<and> \<not> list_ex installsDevice (trace (snd (mainBody col v))))
   \<and> (fst (main col args) \<noteq> Return0 \<longrightarrow>
        SimulatorRun \<notin> set (trace (snd (main col args)))
        \<and> \<not> list_ex enablesTraces (trace (snd (main col args))))"
proof -
  have body: "fst (mainBody col w) \<noteq> Return0 \<Longrightarrow>
        SimulatorRun \<notin> set (trace (snd (mainBody col w)))
        \<and> \<not> list_ex enablesTraces (trace (snd (mainBody col w)))
        \<and> \<not> list_ex installsDevice (trace (snd (mainBody col w)))" for w
  proof -
    assume n: "fst (mainBody col w) \<noteq> Return0"
    then have "fatalSetup col w" using mainBody_returns [of col w] by blast
    from mainBody_fatal [OF this] show ?thesis by (simp add: scene_quiet)
  qed
  have iff: "fatalSetup col v \<longleftrightarrow> (\<exists>msg. fst (mainBody col v) = FatalError msg)"
  proof
    assume "fatalSetup col v"
    from mainBody_fatal [OF this] show "\<exists>msg. fst (mainBody col v) = FatalError msg" by simp
  next
    assume "\<exists>msg. fst (mainBody col v) = FatalError msg"
    then have "fst (mainBody col v) \<noteq> Return0" by auto
    then show "fatalSetup col v" using mainBody_returns [of col v] by blast
  qed
  have top: "fst (main col args) \<noteq> Return0 \<Longrightarrow>
        SimulatorRun \<notin> set (trace (snd (main col args)))
        \<and> \<not> list_ex enablesTraces (trace (snd (main col args)))"
    using main_cases [of col args] body by (auto simp: initialSim_def)
  from iff body [of v] top show ?thesis by blast
qed

theorem fatal_never_runs_witness:
  "SimulatorRun \<notin> set (trace (snd (mainBody demoCollab (initialVars\<lparr>channelModel := ''Ray''\<rparr>))))
   \<and> SimulatorRun \<notin> set (trace (snd (mainBody demoCollab (initialVars\<lparr>amcSelectionModel := ''Fixed''\<rparr>))))
   \<and> SimulatorRun \<notin> set (trace (snd (mainBody demoCollab (initialVars\<lparr>errorModelType := ''ns3::None''\<rparr>))))"
proof -
  have "fatalSetup demoCollab (initialVars\<lparr>channelModel := ''Ray''\<rparr>)"
    "fatalSetup demoCollab (initialVars\<lparr>amcSelectionModel := ''Fixed''\<rparr>)"
    "fatalSetup demoCollab (initialVars\<lparr>errorModelType := ''ns3::None''\<rparr>)"
    by (simp_all add: fatalSetup_def initialVars_def demoCollab_def)
  then show ?thesis
    using fatal_never_runs [of demoCollab "initialVars\<lparr>channelModel := ''Ray''\<rparr>" "[]"]
      fatal_never_runs [of demoCollab "initialVars\<lparr>amcSelectionModel := ''Fixed''\<rparr>" "[]"]
      fatal_never_runs [of demoCollab "initialVars\<lparr>errorModelType := ''ns3::None''\<rparr>" "[]"]
    by (metis fatal_message_neq(1))
qed

section \<open>Writes to the terminals\<close>

lemma filter_index_upt: "filter (\<lambda>j. j = i) [0..<n] = (if i < n then [i] else [])"
  by (induction n) auto

lemma scene_touches:
  "filter (touches i) (trace (scene col v)) =
     (if i < unat (numUes v)
      then [Created i (gridPosition col i) (Vector 30 0 0), SetPosition i (overridePosition i),
            SetVelocity i (zigzagVelocity i)]
      else [])"
  by (simp add: scene_trace filter_map comp_def touches_def filter_index_upt ueSpeed_def)

lemma scene_assignsVelocity:
  "filter (assignsVelocity i) (trace (scene col v)) =
     (if i < unat (numUes v)
      then [Created i (gridPosition col i) (Vector 30 0 0), SetVelocity i (zigzagVelocity i)]
      else [])"
  by (simp add: scene_trace filter_map comp_def filter_index_upt ueSpeed_def)

lemma scene_setsVelocity:
  "filter (setsVelocity i) (trace (scene col v)) =
     (if i < unat (numUes v) then [SetVelocity i (zigzagVelocity i)] else [])"
  by (simp add: scene_trace filter_map comp_def filter_index_upt)

lemma scene_setsPosition:
  "filter (setsPosition i) (trace (scene col v)) =
     (if i < unat (numUes v) then [SetPosition i (overridePosition i)] else [])"
  by (simp add: scene_trace filter_map comp_def filter_index_upt)

lemma tailEvents_touch_nothing:
  "filter (touches i) (tailEvents col v g n r) = []"
  "filter (assignsVelocity i) (tailEvents col v g n r) = []"
  "filter (setsVelocity i) (tailEvents col v g n r) = []"
  "filter (setsPosition i) (tailEvents col v g n r) = []"
  by (simp_all add: tailEvents_def filter_map comp_def touches_def)

lemma mainBody_trace:
  "trace (snd (mainBody col v)) = trace (scene col v)
   \<or> trace (snd (mainBody col v)) =
        trace (scene col v) @ tailEvents col v (unat (numGnbs v)) (unat (numUes v)) 1"
  using mainBody_fatal [of col v] mainBody_returns [of col v] by blast

lemma mainBody_filters:
  "filter (touches i) (trace (snd (mainBody col v))) = filter (touches i) (trace (scene col v))"
  "filter (assignsVelocity i) (trace (snd (mainBody col v)))
     = filter (assignsVelocity i) (trace (scene col v))"
  "filter (setsVelocity i) (trace (snd (mainBody col v)))
     = filter (setsVelocity i) (trace (scene col v))"
  "filter (setsPosition i) (trace (snd (mainBody col v)))
     = filter (setsPosition i) (trace (scene col v))"
  using mainBody_trace [of col v] by (auto simp: tailEvents_touch_nothing)

text \<open>
  Claim C9, amended. Over the whole setup, whatever its outcome, the events on a terminal
  are in this order: its creation, which gives it the grid position and the velocity
  \<open>(30, 0, 0)\<close>; one position write, by the placement override; one velocity write, by the
  mobility assignment. So after creation the position is written exactly once and the
  velocity exactly once.
\<close>

theorem writes_after_creation:
  assumes "i < unat (numUes v)"
  shows "filter (touches i) (trace (snd (mainBody col v))) =
           [Created i (gridPosition col i) (Vector 30 0 0), SetPosition i (overridePosition i),
            SetVelocity i (zigzagVelocity i)]
     \<and> length (filter (setsVelocity i) (trace (snd (mainBody col v)))) = 1
     \<and> length (filter (setsPosition i) (trace (snd (mainBody col v)))) = 1"
  using assms
  by (simp add: mainBody_filters scene_touches scene_setsVelocity scene_setsPosition)

theorem writes_after_creation_witness:
  "filter (touches 1) (trace (snd (mainBody demoCollab initialVars))) =
     [Created 1 (Vector 1 0 1.5) (Vector 30 0 0), SetPosition 1 (Vector 50 (- 30) 1.5),
      SetVelocity 1 (Vector 4 (- 4) 0)]"
proof -
  have "(1::nat) < unat (numUes initialVars)"
    by (simp add: initialVars_def)
  from writes_after_creation [OF this, of demoCollab]
  show ?thesis
    by (simp add: demoCollab_def overridePosition_def zigzagVelocity_def)
qed

text \<open>
  Claim C9 as it is stated asks for one velocity assignment per terminal over the whole
  setup. In the default run terminal 0 gets two: \<open>(30, 0, 0)\<close> at its creation and
  \<open>(1, 1, 0)\<close> from the mobility assignment.
\<close>

theorem velocity_assigned_twice:
  "filter (assignsVelocity 0) (trace (snd (mainBody demoCollab initialVars))) =
     [Created 0 (Vector 0 0 1.5) (Vector 30 0 0), SetVelocity 0 (Vector 1 1 0)]"
proof -
  have "(0::nat) < unat (numUes initialVars)"
    by (simp add: initialVars_def)
  then show ?thesis
    by (simp add: mainBody_filters scene_assignsVelocity demoCollab_def zigzagVelocity_def)
qed

subsection \<open>The link-adaptation model of the base stations\<close>

lemma provision_amc:
  assumes "amcSelectionModel v = ''ErrorModel'' \<or> amcSelectionModel v = ''ShannonModel''"
  shows "gnbDlAmcAttrs (nrHelper (provision col v s)) ''AmcModel'' = Some (EnumValue (amcDefault v))"
    "gnbUlAmcAttrs (nrHelper (provision col v s)) ''AmcModel'' = Some (EnumValue (amcDefault v))"
  using assms
  by (auto simp: provision_def Let_def assignStreams_def emit_def configureGnbAmc_def
      setter_defs amcDefault_def)

lemma provision_defaults: "defaults (provision col v s) = defaults s"
  by (simp add: provision_def Let_def assignStreams_def emit_def configureGnbAmc_def setter_defs)

lemma configureAmc_default:
  assumes "configureAmc col v s = Inr s1"
  shows "defaults s1 ''ns3::NrAmc::AmcModel'' = Some (EnumValue (amcDefault v))"
proof -
  from configureAmc_Inr [OF assms]
  have "knownTypeId col (errorModelType v)"
    "amcSelectionModel v = ''ErrorModel'' \<or> amcSelectionModel v = ''ShannonModel''"
    by simp_all
  from configureAmc_valid [OF this, of s] assms show ?thesis
    by (auto simp: SetDefault_def)
qed

text \<open>The body returns normally exactly when both dispatches let it reach line 299.\<close>

lemma mainBody_reaches_provision:
  "fst (mainBody col v) = Return0 \<longleftrightarrow>
     (\<exists>s1 s2. configureAmc col v (scene col v) = Inr s1
        \<and> configureChannel v (createHelpers s1) = Inr s2
        \<and> snd (mainBody col v) = run v (traffic (provision col v s2)))"
  by (auto simp: mainBody_scene split: sum.splits prod.splits)

text \<open>
  Claim C10. When the link-adaptation step of the base stations (lines 319--329) is
  reached, that is, when both dispatches before it went through, the mode is ErrorModel
  or ShannonModel, so the step sets both attributes, and each equals the default that
  lines 229--236 stored.
\<close>

theorem gnb_amc_matches_default:
  assumes "configureAmc col v s = Inr s1" and "configureChannel v (createHelpers s1) = Inr s2"
  shows "amcSelectionModel v \<in> {''ErrorModel'', ''ShannonModel''}
     \<and> gnbDlAmcAttrs (nrHelper (provision col v s2)) ''AmcModel''
         = defaults (provision col v s2) ''ns3::NrAmc::AmcModel''
     \<and> gnbUlAmcAttrs (nrHelper (provision col v s2)) ''AmcModel''
         = defaults (provision col v s2) ''ns3::NrAmc::AmcModel''
     \<and> defaults (provision col v s2) ''ns3::NrAmc::AmcModel''
         = Some (EnumValue (if amcSelectionModel v = ''ErrorModel'' then ErrorModel
                            else ShannonModel))"
proof -
  from configureAmc_Inr [OF assms(1)]
  have a: "amcSelectionModel v = ''ErrorModel'' \<or> amcSelectionModel v = ''ShannonModel''"
    by simp
  have "defaults (provision col v s2) ''ns3::NrAmc::AmcModel'' = Some (EnumValue (amcDefault v))"
    using configureChannel_keeps(4) [OF assms(2)] configureAmc_default [OF assms(1)]
    by (simp add: provision_defaults createHelpers_fields)
  with a provision_amc [OF a, of col s2] show ?thesis
    by (simp add: amcDefault_def)
qed

theorem gnb_amc_matches_default_witness:
  "\<exists>s1 s2. configureAmc demoCollab (initialVars\<lparr>amcSelectionModel := ''ShannonModel''\<rparr>)
                initialSim = Inr s1
     \<and> configureChannel (initialVars\<lparr>amcSelectionModel := ''ShannonModel''\<rparr>)
                (createHelpers s1) = Inr s2
     \<and> gnbDlAmcAttrs (nrHelper (provision demoCollab
                (initialVars\<lparr>amcSelectionModel := ''ShannonModel''\<rparr>) s2)) ''AmcModel''
         = Some (EnumValue ShannonModel)
     \<and> defaults (provision demoCollab
                (initialVars\<lparr>amcSelectionModel := ''ShannonModel''\<rparr>) s2) ''ns3::NrAmc::AmcModel''
         = Some (EnumValue ShannonModel)"
proof -
  let ?v = "initialVars\<lparr>amcSelectionModel := ''ShannonModel''\<rparr>"
  have k: "knownTypeId demoCollab (errorModelType ?v)"
    and a: "amcSelectionModel ?v = ''ErrorModel'' \<or> amcSelectionModel ?v = ''ShannonModel''"
    and c: "channelModel ?v = ''ThreeGpp'' \<or> channelModel ?v = ''NYU'' \<or> channelModel ?v = ''TwoRay''"
    by (simp_all add: demoCollab_def initialVars_def)
  from configureAmc_valid [OF k a, of initialSim]
  obtain s1 where 1: "configureAmc demoCollab ?v initialSim = Inr s1" by blast
  from configureChannel_phased [OF c, of "createHelpers s1"]
  obtain s2 where 2: "configureChannel ?v (createHelpers s1) = Inr s2" by blast
  from gnb_amc_matches_default [OF 1 2] 1 2 show ?thesis
    by (intro exI [of _ s1] exI [of _ s2]) simp
qed

section \<open>Invalid models on the command line\<close>


text \<open>No command line makes the program report an invalid link-adaptation mode.\<close>

lemma amc_check_unreachable:
  "fst (main col args) \<noteq> FatalError (''Invalid amcSelectionModel: '' @ x)"
proof (cases "parsedVars col args")
  case (Inl msg)
  then show ?thesis by (simp add: main_def)
next
  case (Inr v)
  from late_flags_keep_defaults [OF Inr]
  have a: "amcSelectionModel v = ''ErrorModel''" by simp
  show ?thesis
  proof (cases "fatalSetup col v")
    case False
    from mainBody_returns [OF False] Inr show ?thesis by (simp add: main_def)
  next
    case True
    show ?thesis
    proof (cases "knownTypeId col (errorModelType v)")
      case False
      then show ?thesis using Inr by (simp add: main_def mainBody_unknown)
    next
      case k: True
      with True a have c: "channelModel v \<noteq> ''ThreeGpp''" "channelModel v \<noteq> ''NYU''"
        "channelModel v \<noteq> ''TwoRay''" "channelModel v \<noteq> ''Friis''"
        by (auto simp: fatalSetup_def)
      from a have "amcSelectionModel v = ''ErrorModel'' \<or> amcSelectionModel v = ''ShannonModel''"
        by simp
      from mainBody_bad_channel [OF k this c] Inr show ?thesis
        by (simp add: main_def)
    qed
  qed
qed



end
